theory Spec2Isabelle
  imports Main "HOL-Library.Word"
begin

section \<open>Doubles\<close>

text \<open>
  A Number carries a C \<open>double\<close>, here its IEEE 754 binary64 bit pattern: bit 63 is the
  sign, bits 52..62 the biased exponent, bits 0..51 the fraction. Comparison and negation
  are exact operations on the bit pattern and are defined below. Addition, subtraction,
  multiplication and division round their result; they are the operators of the C
  language, not code of this program, and are passed to the primitives that use them
  as the record \<open>fpu\<close>.
\<close>

type_synonym double = "64 word"

definition d_sign :: "double \<Rightarrow> bool" where
  "d_sign w = bit w 63"

definition d_exp :: "double \<Rightarrow> nat" where
  "d_exp w = unat (take_bit 11 (drop_bit 52 w))"

definition d_frac :: "double \<Rightarrow> nat" where
  "d_frac w = unat (take_bit 52 w)"

definition d_is_nan :: "double \<Rightarrow> bool" where
  "d_is_nan w = (d_exp w = 2047 \<and> d_frac w \<noteq> 0)"

text \<open>
  The magnitude of a double that is not a NaN grows with its exponent and fraction read
  as one unsigned number (infinity has the largest); \<open>d_key\<close> gives it the sign, so that
  both zeros have key 0 and the order of the keys is the order of the values.
\<close>

definition d_mag :: "double \<Rightarrow> int" where
  "d_mag w = int (d_exp w) * 2 ^ 52 + int (d_frac w)"

definition d_key :: "double \<Rightarrow> int" where
  "d_key w = (if d_sign w then - d_mag w else d_mag w)"

text \<open>The C operators \<open><\<close>, \<open>>=\<close> and \<open>==\<close> on doubles: false as soon as an operand is a NaN.\<close>

definition d_lt :: "double \<Rightarrow> double \<Rightarrow> bool" where
  "d_lt a b = (\<not> d_is_nan a \<and> \<not> d_is_nan b \<and> d_key a < d_key b)"

definition d_ge :: "double \<Rightarrow> double \<Rightarrow> bool" where
  "d_ge a b = (\<not> d_is_nan a \<and> \<not> d_is_nan b \<and> d_key a \<ge> d_key b)"

definition d_eq :: "double \<Rightarrow> double \<Rightarrow> bool" where
  "d_eq a b = (\<not> d_is_nan a \<and> \<not> d_is_nan b \<and> d_key a = d_key b)"

text \<open>Unary minus flips the sign bit, of a NaN too.\<close>

definition d_neg :: "double \<Rightarrow> double" where
  "d_neg w = xor w (push_bit 63 1)"

text \<open>The doubles that the integer constants 0 and 1 convert to.\<close>

definition d_zero :: double where
  "d_zero = 0"

definition d_one :: double where
  "d_one = 0x3FF0000000000000"

record fpu =
  fadd :: "double \<Rightarrow> double \<Rightarrow> double"
  fsub :: "double \<Rightarrow> double \<Rightarrow> double"
  fmul :: "double \<Rightarrow> double \<Rightarrow> double"
  fdiv :: "double \<Rightarrow> double \<Rightarrow> double"

section \<open>Values, objects and the state\<close>

text \<open>
  \<open>primitives.h\<close> is not among the sources, so the object layout follows the spec's data
  model. A \<open>Value\<close> is a pointer to an object (\<open>typedef Obj* Value\<close>): here the index of
  the object in the list of allocated objects, so that two values are identity-equal
  exactly when they are the same index. A \<open>char*\<close> is a malloc'ed block and an offset
  into it; a byte of a block is \<open>None\<close> until it has been written.
\<close>

type_synonym Value = nat

datatype ObjType = OBJ_NUM | OBJ_STRING | OBJ_CLASS | OBJ_INSTANCE

datatype MethodType = METHOD_NONE | METHOD_PRIMITIVE

text \<open>The primitive functions, as the function pointers a method slot can hold.\<close>

datatype Primitive =
  primitive_num_abs | primitive_num_toString | primitive_num_minus | primitive_num_plus
  | primitive_num_multiply | primitive_num_divide | primitive_string_contains
  | primitive_string_count | primitive_string_toString | primitive_string_plus
  | primitive_io_write

record Method =
  mtype :: MethodType
  primitive :: "Primitive option"

record charptr =
  block :: nat
  offset :: nat

datatype Obj =
  ObjNum double
  | ObjString charptr
  | ObjClass "nat \<Rightarrow> Method"
  | ObjInstance Value

fun obj_type :: "Obj \<Rightarrow> ObjType" where
  "obj_type (ObjNum d) = OBJ_NUM"
| "obj_type (ObjString p) = OBJ_STRING"
| "obj_type (ObjClass ms) = OBJ_CLASS"
| "obj_type (ObjInstance c) = OBJ_INSTANCE"

text \<open>
  What the process has written to standard output, in order: the text form of a value
  (by \<open>printValue\<close>) or a literal text (by \<open>printf\<close>).
\<close>

datatype out_item = Printed Value | Text string

text \<open>
  The fields of the C struct \<open>VM\<close> that the primitives use, together with the state of
  the process around it: the allocated objects, the malloc'ed blocks and what has been
  written to standard output.
\<close>

record VM =
  symbols :: "string list"
  globalSymbols :: "string list"
  globals :: "nat \<rightharpoonup> Value"
  numClass :: Value
  stringClass :: Value
  unsupported :: Value
  heap :: "Obj list"
  mem :: "char option list list"
  stdout :: "out_item list"

text \<open>
  What C leaves undefined is a fault of the model: a pointer to no object, an object read
  through the accessor of another type, an argument slot that was not passed, a read or
  write past the end of a block, a read of a byte never written.
\<close>

datatype fault = BadPointer | WrongType | MissingArg | OutOfBounds | Uninitialised

definition bindE :: "fault + 'a \<Rightarrow> ('a \<Rightarrow> fault + 'b) \<Rightarrow> fault + 'b" where
  "bindE m f = (case m of Inl e \<Rightarrow> Inl e | Inr x \<Rightarrow> f x)"

definition arg :: "Value list \<Rightarrow> nat \<Rightarrow> fault + Value" where
  "arg args i = (if i < length args then Inr (args ! i) else Inl MissingArg)"

definition deref :: "VM \<Rightarrow> Value \<Rightarrow> fault + Obj" where
  "deref vm v = (if v < length (heap vm) then Inr (heap vm ! v) else Inl BadPointer)"

text \<open>\<open>v->type\<close>\<close>

definition type_of :: "VM \<Rightarrow> Value \<Rightarrow> fault + ObjType" where
  "type_of vm v = bindE (deref vm v) (\<lambda>obj. Inr (obj_type obj))"

text \<open>
  Modelled from the spec: the accessor macro \<open>AS_NUM\<close> of the missing header extracts
  the double of a value whose tag is Number; extraction under another tag is undefined.
\<close>

definition AS_NUM :: "VM \<Rightarrow> Value \<Rightarrow> fault + double" where
  "AS_NUM vm v =
     bindE (deref vm v) (\<lambda>obj. case obj of ObjNum d \<Rightarrow> Inr d | _ \<Rightarrow> Inl WrongType)"

text \<open>
  Modelled from the spec: the accessor macro \<open>AS_STRING\<close> of the missing header extracts
  the \<open>char*\<close> of a value whose tag is String; extraction under another tag is
  undefined.
\<close>

definition AS_STRING :: "VM \<Rightarrow> Value \<Rightarrow> fault + charptr" where
  "AS_STRING vm v =
     bindE (deref vm v) (\<lambda>obj. case obj of ObjString p \<Rightarrow> Inr p | _ \<Rightarrow> Inl WrongType)"

text \<open>
  A new object is placed after the objects allocated so far, so its pointer differs from
  the pointer of every one of them. Running out of memory is fatal for the process and
  is not modelled.
\<close>

definition alloc :: "VM \<Rightarrow> Obj \<Rightarrow> VM \<times> Value" where
  "alloc vm obj = (vm\<lparr>heap := heap vm @ [obj]\<rparr>, length (heap vm))"

text \<open>
  Modelled from the spec: the constructor \<open>makeNum\<close> of the missing value model returns
  a new value tagged Number that holds the double.
\<close>

definition makeNum :: "VM \<Rightarrow> double \<Rightarrow> VM \<times> Value" where
  "makeNum vm d = alloc vm (ObjNum d)"

text \<open>
  Modelled from the spec: the constructor \<open>makeString\<close> of the missing value model
  returns a new value tagged String that owns the buffer passed to it.
\<close>

definition makeString :: "VM \<Rightarrow> charptr \<Rightarrow> VM \<times> Value" where
  "makeString vm p = alloc vm (ObjString p)"

text \<open>
  Modelled from the spec: the constructor \<open>makeInstance\<close> of the missing value model
  returns a new value tagged Instance that refers to its class.
\<close>

definition makeInstance :: "VM \<Rightarrow> Value \<Rightarrow> VM \<times> Value" where
  "makeInstance vm cls = alloc vm (ObjInstance cls)"

definition no_method :: Method where
  "no_method = \<lparr>mtype = METHOD_NONE, primitive = None\<rparr>"

text \<open>
  Modelled from the spec: the constructor \<open>makeClass\<close> of the missing value model
  returns a new class whose method table is empty.
\<close>

definition makeClass :: "VM \<Rightarrow> VM \<times> Value" where
  "makeClass vm = alloc vm (ObjClass (\<lambda>symbol. no_method))"

section \<open>The numeric primitives\<close>

text \<open>
  A primitive takes the state and the argument array (\<open>numArgs\<close> is its length; no
  primitive reads it) and returns the new state and the result value, or a fault.
  \<open>num_toString\<close> and \<open>string_count\<close>, which no statement below is about, appear only
  as the function pointers that registration binds.
\<close>

definition num_abs :: "VM \<Rightarrow> Value list \<Rightarrow> fault + VM \<times> Value" where
  "num_abs vm args =
     bindE (arg args 0) (\<lambda>a0.
     bindE (AS_NUM vm a0) (\<lambda>v.
       let v' = (if d_lt v d_zero then d_neg v else v)
       in Inr (makeNum vm v')))"

definition num_minus :: "fpu \<Rightarrow> VM \<Rightarrow> Value list \<Rightarrow> fault + VM \<times> Value" where
  "num_minus fp vm args =
     bindE (arg args 1) (\<lambda>a1.
     bindE (type_of vm a1) (\<lambda>t.
       if t \<noteq> OBJ_NUM then Inr (vm, unsupported vm)
       else
         bindE (arg args 0) (\<lambda>a0.
         bindE (AS_NUM vm a0) (\<lambda>x.
         bindE (AS_NUM vm a1) (\<lambda>y.
           Inr (makeNum vm (fsub fp x y)))))))"

definition num_plus :: "fpu \<Rightarrow> VM \<Rightarrow> Value list \<Rightarrow> fault + VM \<times> Value" where
  "num_plus fp vm args =
     bindE (arg args 1) (\<lambda>a1.
     bindE (type_of vm a1) (\<lambda>t.
       if t \<noteq> OBJ_NUM then Inr (vm, unsupported vm)
       else
         bindE (arg args 0) (\<lambda>a0.
         bindE (AS_NUM vm a0) (\<lambda>x.
         bindE (AS_NUM vm a1) (\<lambda>y.
           Inr (makeNum vm (fadd fp x y)))))))"

definition num_multiply :: "fpu \<Rightarrow> VM \<Rightarrow> Value list \<Rightarrow> fault + VM \<times> Value" where
  "num_multiply fp vm args =
     bindE (arg args 1) (\<lambda>a1.
     bindE (type_of vm a1) (\<lambda>t.
       if t \<noteq> OBJ_NUM then Inr (vm, unsupported vm)
       else
         bindE (arg args 0) (\<lambda>a0.
         bindE (AS_NUM vm a0) (\<lambda>x.
         bindE (AS_NUM vm a1) (\<lambda>y.
           Inr (makeNum vm (fmul fp x y)))))))"

definition num_divide :: "fpu \<Rightarrow> VM \<Rightarrow> Value list \<Rightarrow> fault + VM \<times> Value" where
  "num_divide fp vm args =
     bindE (arg args 1) (\<lambda>a1.
     bindE (type_of vm a1) (\<lambda>t.
       if t \<noteq> OBJ_NUM then Inr (vm, unsupported vm)
       else
         bindE (arg args 0) (\<lambda>a0.
         bindE (AS_NUM vm a0) (\<lambda>x.
         bindE (AS_NUM vm a1) (\<lambda>y.
           Inr (makeNum vm (fdiv fp x y)))))))"

section \<open>C strings\<close>

text \<open>
  The bytes of the string that starts at the head of a block's remainder: up to, and
  without, the first NUL. Running off the end of the block or onto a byte never written
  is a fault.
\<close>

fun cstring :: "char option list \<Rightarrow> fault + string" where
  "cstring [] = Inl OutOfBounds"
| "cstring (None # bs) = Inl Uninitialised"
| "cstring (Some c # bs) =
     (if c = CHR 0x00 then Inr [] else bindE (cstring bs) (\<lambda>s. Inr (c # s)))"

definition read_string :: "VM \<Rightarrow> charptr \<Rightarrow> fault + string" where
  "read_string vm p =
     (if block p < length (mem vm) then cstring (drop (offset p) (mem vm ! block p))
      else Inl BadPointer)"

definition strlen :: "VM \<Rightarrow> charptr \<Rightarrow> fault + nat" where
  "strlen vm p = bindE (read_string vm p) (\<lambda>s. Inr (length s))"

fun starts_with :: "string \<Rightarrow> string \<Rightarrow> bool" where
  "starts_with hs [] = True"
| "starts_with [] (n # ns) = False"
| "starts_with (h # hs) (n # ns) = (h = n \<and> starts_with hs ns)"

text \<open>The offset of the first occurrence of the needle in the haystack.\<close>

fun find_sub :: "string \<Rightarrow> string \<Rightarrow> nat option" where
  "find_sub [] nd = (if nd = [] then Some 0 else None)"
| "find_sub (h # hs) nd =
     (if starts_with (h # hs) nd then Some 0 else map_option Suc (find_sub hs nd))"

text \<open>
  \<open>strstr\<close> of the C library: a pointer to the first occurrence of the second string in
  the first, the first string itself when the second is empty, \<open>None\<close> for \<open>NULL\<close>.
\<close>

definition strstr :: "VM \<Rightarrow> charptr \<Rightarrow> charptr \<Rightarrow> fault + charptr option" where
  "strstr vm s1 s2 =
     bindE (read_string vm s1) (\<lambda>hs.
     bindE (read_string vm s2) (\<lambda>nd.
       Inr (map_option (\<lambda>i. s1\<lparr>offset := offset s1 + i\<rparr>) (find_sub hs nd))))"

text \<open>
  \<open>malloc\<close> returns a new block of the size asked for, none of its bytes written.
  A failed allocation is fatal for the process and is not modelled.
\<close>

definition malloc :: "VM \<Rightarrow> nat \<Rightarrow> VM \<times> charptr" where
  "malloc vm n =
     (vm\<lparr>mem := mem vm @ [replicate n None]\<rparr>, \<lparr>block = length (mem vm), offset = 0\<rparr>)"

text \<open>
  \<open>strcpy\<close> writes the source string and its terminating NUL at the destination; the
  write must fit into the destination's block. (Source and destination never share a
  block here: the destination is always a block just allocated.)
\<close>

definition strcpy :: "VM \<Rightarrow> charptr \<Rightarrow> charptr \<Rightarrow> fault + VM" where
  "strcpy vm dst src =
     bindE (read_string vm src) (\<lambda>s.
       if block dst < length (mem vm) then
         let b = mem vm ! block dst;
             bytes = map Some (s @ [CHR 0x00])
         in if offset dst + length bytes \<le> length b
            then Inr (vm\<lparr>mem := (mem vm)[block dst :=
                   take (offset dst) b @ bytes @ drop (offset dst + length bytes) b]\<rparr>)
            else Inl OutOfBounds
       else Inl BadPointer)"

section \<open>The string and io primitives\<close>

definition string_contains :: "VM \<Rightarrow> Value list \<Rightarrow> fault + VM \<times> Value" where
  "string_contains vm args =
     bindE (arg args 0) (\<lambda>a0.
     bindE (AS_STRING vm a0) (\<lambda>string.
     bindE (arg args 1) (\<lambda>a1.
     bindE (AS_STRING vm a1) (\<lambda>search.
     bindE (strlen vm string) (\<lambda>n.
     bindE (if n = 0 then bindE (strlen vm search) (\<lambda>m. Inr (m = 0)) else Inr False)
       (\<lambda>corner.
         if corner then Inr (makeNum vm d_one)
         else
           bindE (strstr vm string search) (\<lambda>r.
             Inr (makeNum vm (if r \<noteq> None then d_one else d_zero)))))))))"

definition string_toString :: "VM \<Rightarrow> Value list \<Rightarrow> fault + VM \<times> Value" where
  "string_toString vm args = bindE (arg args 0) (\<lambda>a0. Inr (vm, a0))"

definition string_plus :: "VM \<Rightarrow> Value list \<Rightarrow> fault + VM \<times> Value" where
  "string_plus vm args =
     bindE (arg args 1) (\<lambda>a1.
     bindE (type_of vm a1) (\<lambda>t.
       if t \<noteq> OBJ_STRING then Inr (vm, unsupported vm)
       else
         bindE (arg args 0) (\<lambda>a0.
         bindE (AS_STRING vm a0) (\<lambda>left.
         bindE (AS_STRING vm a1) (\<lambda>right.
         bindE (strlen vm left) (\<lambda>leftLength.
         bindE (strlen vm right) (\<lambda>rightLength.
           let (vm1, result) = malloc vm (leftLength + rightLength)
           in bindE (strcpy vm1 result left) (\<lambda>vm2.
              bindE (strcpy vm2 (result\<lparr>offset := offset result + leftLength\<rparr>) right)
                (\<lambda>vm3. Inr (makeString vm3 result))))))))))"

text \<open>
  Modelled from the spec: \<open>printValue\<close>, which is not among the sources, prints the text
  form of its argument; the output records which value was printed.
\<close>

definition printValue :: "VM \<Rightarrow> Value \<Rightarrow> VM" where
  "printValue vm v = vm\<lparr>stdout := stdout vm @ [Printed v]\<rparr>"

definition printf :: "VM \<Rightarrow> string \<Rightarrow> VM" where
  "printf vm s = vm\<lparr>stdout := stdout vm @ [Text s]\<rparr>"

definition io_write :: "VM \<Rightarrow> Value list \<Rightarrow> fault + VM \<times> Value" where
  "io_write vm args =
     bindE (arg args 1) (\<lambda>a1.
       let vm1 = printValue vm a1;
           vm2 = printf vm1 [CHR 0x0A]
       in Inr (vm2, a1))"

section \<open>Registration\<close>

fun find_symbol :: "string list \<Rightarrow> string \<Rightarrow> nat option" where
  "find_symbol [] name = None"
| "find_symbol (s # ss) name =
     (if s = name then Some 0 else map_option Suc (find_symbol ss name))"

text \<open>
  Modelled from the spec: \<open>ensureSymbol\<close>, which is not among the sources, returns the
  id of a name registered before, and otherwise registers the name under the next id.
\<close>

definition ensureSymbol :: "string list \<Rightarrow> string \<Rightarrow> string list \<times> nat" where
  "ensureSymbol syms name =
     (case find_symbol syms name of
        Some i \<Rightarrow> (syms, i)
      | None \<Rightarrow> (syms @ [name], length syms))"

text \<open>
  Modelled from the spec: \<open>addSymbol\<close>, which is not among the sources, is the same
  operation as \<open>ensureSymbol\<close>, used where registration is intended.
\<close>

definition addSymbol :: "string list \<Rightarrow> string \<Rightarrow> string list \<times> nat" where
  "addSymbol syms name = ensureSymbol syms name"

text \<open>
  Modelled from the spec: the method table of a class has a slot for every symbol id, and
  looking a method up is reading the slot; a value that is no class has no method.
\<close>

definition lookup :: "VM \<Rightarrow> Value \<Rightarrow> nat \<Rightarrow> Method" where
  "lookup vm cls symbol =
     (if cls < length (heap vm)
      then (case heap vm ! cls of ObjClass ms \<Rightarrow> ms symbol | _ \<Rightarrow> no_method)
      else no_method)"

text \<open>The macro \<open>PRIMITIVE(cls, name, prim)\<close>.\<close>

definition PRIMITIVE :: "Value \<Rightarrow> string \<Rightarrow> Primitive \<Rightarrow> VM \<Rightarrow> fault + VM" where
  "PRIMITIVE cls name prim vm =
     (let (syms, symbol) = ensureSymbol (symbols vm) name;
          vm1 = vm\<lparr>symbols := syms\<rparr>
      in bindE (deref vm1 cls) (\<lambda>obj.
           case obj of
             ObjClass ms \<Rightarrow>
               Inr (vm1\<lparr>heap := (heap vm1)[cls := ObjClass
                      (ms(symbol := \<lparr>mtype = METHOD_PRIMITIVE, primitive = Some prim\<rparr>))]\<rparr>)
           | _ \<Rightarrow> Inl WrongType))"

text \<open>The macro \<open>GLOBAL(cls, name)\<close>.\<close>

definition GLOBAL :: "Value \<Rightarrow> string \<Rightarrow> VM \<Rightarrow> VM" where
  "GLOBAL cls name vm =
     (let (vm1, obj) = makeInstance vm cls;
          (syms, symbol) = addSymbol (globalSymbols vm1) name
      in vm1\<lparr>globalSymbols := syms, globals := (globals vm1)(symbol \<mapsto> obj)\<rparr>)"

definition registerPrimitives :: "VM \<Rightarrow> fault + VM" where
  "registerPrimitives vm =
     bindE (PRIMITIVE (numClass vm) ''abs'' primitive_num_abs vm) (\<lambda>vm.
     bindE (PRIMITIVE (numClass vm) ''toString'' primitive_num_toString vm) (\<lambda>vm.
     bindE (PRIMITIVE (numClass vm) ''- '' primitive_num_minus vm) (\<lambda>vm.
     bindE (PRIMITIVE (numClass vm) ''+ '' primitive_num_plus vm) (\<lambda>vm.
     bindE (PRIMITIVE (numClass vm) ''* '' primitive_num_multiply vm) (\<lambda>vm.
     bindE (PRIMITIVE (numClass vm) ''/ '' primitive_num_divide vm) (\<lambda>vm.
     bindE (PRIMITIVE (stringClass vm) ''contains '' primitive_string_contains vm) (\<lambda>vm.
     bindE (PRIMITIVE (stringClass vm) ''count'' primitive_string_count vm) (\<lambda>vm.
     bindE (PRIMITIVE (stringClass vm) ''toString'' primitive_string_toString vm) (\<lambda>vm.
     bindE (PRIMITIVE (stringClass vm) ''+ '' primitive_string_plus vm) (\<lambda>vm.
       let (vm, ioClass) = makeClass vm
       in bindE (PRIMITIVE ioClass ''write '' primitive_io_write vm) (\<lambda>vm.
            let vm = GLOBAL ioClass ''io'' vm;
                (vm, unsupportedClass) = makeClass vm;
                (vm, obj) = makeInstance vm unsupportedClass
            in Inr (vm\<lparr>unsupported := obj\<rparr>))))))))))))"

section \<open>Well-formed operands and example states\<close>

text \<open>The value is a String whose buffer holds the NUL-terminated bytes \<open>s\<close>.\<close>

definition string_value :: "VM \<Rightarrow> Value \<Rightarrow> string \<Rightarrow> bool" where
  "string_value vm v s =
     (case AS_STRING vm v of Inl e \<Rightarrow> False | Inr p \<Rightarrow> read_string vm p = Inr s)"

text \<open>The value is a class object.\<close>

definition is_class :: "VM \<Rightarrow> Value \<Rightarrow> bool" where
  "is_class vm v =
     (case deref vm v of Inr (ObjClass ms) \<Rightarrow> True | _ \<Rightarrow> False)"

text \<open>
  What binding a method keeps of a state: the number of objects, which of them are
  classes, the two built-in class pointers, the sentinel pointer and the globals.
\<close>

abbreviation kept :: "VM \<Rightarrow> VM \<Rightarrow> bool" where
  "kept vm vm' \<equiv>
     length (heap vm') = length (heap vm) \<and>
     (\<forall>v. is_class vm v \<longrightarrow> is_class vm' v) \<and>
     numClass vm' = numClass vm \<and> stringClass vm' = stringClass vm \<and>
     unsupported vm' = unsupported vm \<and>
     globalSymbols vm' = globalSymbols vm \<and> globals vm' = globals vm \<and>
     mem vm' = mem vm \<and> stdout vm' = stdout vm"

text \<open>A quiet NaN: exponent all ones, top fraction bit set.\<close>

definition d_nan :: double where
  "d_nan = 0x7FF8000000000000"

text \<open>
  A state before registration: the Number class and the String class exist, their method
  tables are empty, and \<open>vm->unsupported\<close> has not been assigned.
\<close>

definition boot_vm :: VM where
  "boot_vm =
     \<lparr>symbols = [], globalSymbols = [], globals = Map.empty,
      numClass = 0, stringClass = 1, unsupported = 0,
      heap = [ObjClass (\<lambda>symbol. no_method), ObjClass (\<lambda>symbol. no_method)],
      mem = [], stdout = []\<rparr>"

definition registered_vm :: VM where
  "registered_vm = (case registerPrimitives boot_vm of Inr vm \<Rightarrow> vm | Inl e \<Rightarrow> boot_vm)"

text \<open>
  A state with some values in it: the two classes (\<open>abs\<close> bound on the Number class),
  the class of the sentinel and the sentinel (value 3), the Numbers 1, -1 and NaN
  (values 4, 5, 6), and the Strings \<open>hello\<close>, \<open>ell\<close>, \<open>xyz\<close>, the empty string, \<open>a\<close> and \<open>b\<close>
  (values 7 to 12).
\<close>

definition ex_vm :: VM where
  "ex_vm =
     \<lparr>symbols = [''abs''], globalSymbols = [], globals = Map.empty,
      numClass = 0, stringClass = 1, unsupported = 3,
      heap =
        [ObjClass ((\<lambda>symbol. no_method)
           (0 := \<lparr>mtype = METHOD_PRIMITIVE, primitive = Some primitive_num_abs\<rparr>)),
         ObjClass (\<lambda>symbol. no_method),
         ObjClass (\<lambda>symbol. no_method),
         ObjInstance 2,
         ObjNum d_one,
         ObjNum (d_neg d_one),
         ObjNum d_nan,
         ObjString \<lparr>block = 0, offset = 0\<rparr>,
         ObjString \<lparr>block = 1, offset = 0\<rparr>,
         ObjString \<lparr>block = 2, offset = 0\<rparr>,
         ObjString \<lparr>block = 3, offset = 0\<rparr>,
         ObjString \<lparr>block = 4, offset = 0\<rparr>,
         ObjString \<lparr>block = 5, offset = 0\<rparr>],
      mem =
        [map Some (''hello'' @ [CHR 0x00]),
         map Some (''ell'' @ [CHR 0x00]),
         map Some (''xyz'' @ [CHR 0x00]),
         map Some [CHR 0x00],
         map Some (''a'' @ [CHR 0x00]),
         map Some (''b'' @ [CHR 0x00])],
      stdout = []\<rparr>"

text \<open>The example state with one more value, the Number 0 (value 13).\<close>

definition zero_vm :: VM where
  "zero_vm = fst (makeNum ex_vm d_zero)"

text \<open>The registered start state with one more value, the Number 1 (value 6).\<close>

definition number_vm :: VM where
  "number_vm = fst (makeNum registered_vm d_one)"

section \<open>Basic facts\<close>

lemma bindE_simps [simp]: "bindE (Inl e) f = Inl e" "bindE (Inr x) f = f x"
  by (simp_all add: bindE_def)

lemma arg_simps [simp]:
  "arg (a # as) 0 = Inr a"
  "arg (a # b # bs) (Suc 0) = Inr b"
  by (simp_all add: arg_def)

lemma ex_vm_num:
  "AS_NUM ex_vm 4 = Inr d_one" "AS_NUM ex_vm 5 = Inr (d_neg d_one)" "AS_NUM ex_vm 6 = Inr d_nan"
  by (simp_all add: AS_NUM_def deref_def ex_vm_def)

lemma ex_vm_types:
  "type_of ex_vm 3 = Inr OBJ_INSTANCE" "type_of ex_vm 4 = Inr OBJ_NUM" "type_of ex_vm 7 = Inr OBJ_STRING"
  by (simp_all add: type_of_def deref_def ex_vm_def)

lemma ex_vm_strings:
  "string_value ex_vm 7 ''hello''"
  "string_value ex_vm 8 ''ell''"
  "string_value ex_vm 9 ''xyz''"
  "string_value ex_vm 10 ''''"
  "string_value ex_vm 11 ''a''"
  "string_value ex_vm 12 ''b''"
  by (simp_all add: string_value_def AS_STRING_def deref_def ex_vm_def read_string_def)

section \<open>Type mismatch\<close>

text \<open>
  C1. When the second operand \<open>x\<close> is a value whose tag is not Number, \<open>num_plus\<close>,
  \<open>num_minus\<close>, \<open>num_multiply\<close> and \<open>num_divide\<close> return \<open>vm->unsupported\<close> itself, and
  when its tag is not String so does \<open>string_plus\<close>; neither faults, and the state is
  left as it was. This holds for every receiver, so for every Number and every String
  receiver.
\<close>

theorem mismatch_returns_unsupported:
  "(type_of vm x = Inr t \<and> t \<noteq> OBJ_NUM \<longrightarrow>
      num_plus fp vm [a, x] = Inr (vm, unsupported vm) \<and>
      num_minus fp vm [a, x] = Inr (vm, unsupported vm) \<and>
      num_multiply fp vm [a, x] = Inr (vm, unsupported vm) \<and>
      num_divide fp vm [a, x] = Inr (vm, unsupported vm)) \<and>
   (type_of vm x = Inr t \<and> t \<noteq> OBJ_STRING \<longrightarrow>
      string_plus vm [a, x] = Inr (vm, unsupported vm))"
  by (simp add: num_plus_def num_minus_def num_multiply_def num_divide_def string_plus_def)

theorem mismatch_returns_unsupported_witness:
  "\<forall>fp. type_of ex_vm 3 = Inr OBJ_INSTANCE \<and> OBJ_INSTANCE \<noteq> OBJ_NUM \<and> OBJ_INSTANCE \<noteq> OBJ_STRING \<and>
      AS_NUM ex_vm 4 = Inr d_one \<and> string_value ex_vm 7 ''hello'' \<and>
      num_plus fp ex_vm [4, 3] = Inr (ex_vm, 3) \<and>
      num_minus fp ex_vm [4, 3] = Inr (ex_vm, 3) \<and>
      num_multiply fp ex_vm [4, 3] = Inr (ex_vm, 3) \<and>
      num_divide fp ex_vm [4, 3] = Inr (ex_vm, 3) \<and>
      string_plus ex_vm [7, 3] = Inr (ex_vm, 3)"
proof
  fix fp
  have u: "unsupported ex_vm = 3" by (simp add: ex_vm_def)
  show "type_of ex_vm 3 = Inr OBJ_INSTANCE \<and> OBJ_INSTANCE \<noteq> OBJ_NUM \<and> OBJ_INSTANCE \<noteq> OBJ_STRING \<and>
      AS_NUM ex_vm 4 = Inr d_one \<and> string_value ex_vm 7 ''hello'' \<and>
      num_plus fp ex_vm [4, 3] = Inr (ex_vm, 3) \<and>
      num_minus fp ex_vm [4, 3] = Inr (ex_vm, 3) \<and>
      num_multiply fp ex_vm [4, 3] = Inr (ex_vm, 3) \<and>
      num_divide fp ex_vm [4, 3] = Inr (ex_vm, 3) \<and>
      string_plus ex_vm [7, 3] = Inr (ex_vm, 3)"
    using mismatch_returns_unsupported [of ex_vm 3 OBJ_INSTANCE fp 4]
      mismatch_returns_unsupported [of ex_vm 3 OBJ_INSTANCE fp 7]
    by (simp add: ex_vm_types ex_vm_num ex_vm_strings u)
qed

section \<open>Absolute value\<close>

lemma d_sign_neg: "d_sign (d_neg w) = (\<not> d_sign w)"
  by (simp add: d_sign_def d_neg_def bit_simps)

lemma d_frac_neg: "d_frac (d_neg w) = d_frac w"
  by (simp add: d_frac_def d_neg_def)

lemma d_exp_neg: "d_exp (d_neg w) = d_exp w"
  by (simp add: d_exp_def d_neg_def)

lemma d_is_nan_neg: "d_is_nan (d_neg w) = d_is_nan w"
  by (simp add: d_is_nan_def d_exp_neg d_frac_neg)

lemma d_key_neg: "d_key (d_neg w) = - d_key w"
  by (simp add: d_key_def d_mag_def d_sign_neg d_exp_neg d_frac_neg)

lemma d_key_zero: "d_key d_zero = 0"
  by (simp add: d_key_def d_mag_def d_zero_def d_sign_def d_exp_def d_frac_def)

lemma d_zero_not_nan: "\<not> d_is_nan d_zero"
  by (simp add: d_is_nan_def d_zero_def d_exp_def)

lemma d_one_facts: "\<not> d_is_nan d_one" "d_key d_one = 0x3FF0000000000000"
  by (simp_all add: d_is_nan_def d_key_def d_mag_def d_one_def d_sign_def d_exp_def d_frac_def)

lemma d_nan_is_nan: "d_is_nan d_nan"
  by (simp add: d_is_nan_def d_nan_def d_exp_def d_frac_def)

lemma d_nan_not_negative: "\<not> d_lt d_nan d_zero"
  by (simp add: d_lt_def d_nan_is_nan)

lemma AS_NUM_makeNum: "AS_NUM (fst (makeNum vm d)) (snd (makeNum vm d)) = Inr d"
  by (simp add: makeNum_def alloc_def AS_NUM_def deref_def)

lemma num_abs_value:
  assumes "AS_NUM vm a = Inr x"
  shows "num_abs vm [a] = Inr (makeNum vm (if d_lt x d_zero then d_neg x else x))"
  using assms by (simp add: num_abs_def)

text \<open>
  C5, as stated, fails on a NaN, which is a Number (a division of zero by zero makes
  one): \<open>value < 0\<close> is false for it, so \<open>num_abs\<close> returns a NaN, and \<open>r >= 0\<close> is false
  for a NaN.
\<close>

theorem num_abs_nan_counterexample:
  "AS_NUM ex_vm 6 = Inr d_nan \<and>
   num_abs ex_vm [6] = Inr (makeNum ex_vm d_nan) \<and>
   AS_NUM (fst (makeNum ex_vm d_nan)) (snd (makeNum ex_vm d_nan)) = Inr d_nan \<and>
   \<not> d_ge d_nan d_zero"
  using num_abs_value [OF ex_vm_num(3)]
  by (simp add: ex_vm_num d_nan_not_negative AS_NUM_makeNum d_ge_def d_nan_is_nan)

text \<open>
  C5, amended. For every Number \<open>a\<close> that is not a NaN, \<open>num_abs\<close> returns a Number \<open>r\<close>
  with \<open>r >= 0\<close>, with \<open>r == a\<close> when \<open>a >= 0\<close>, and with \<open>r == -a\<close> when \<open>a < 0\<close>.
\<close>

theorem num_abs_correct:
  assumes "AS_NUM vm a = Inr x" and "\<not> d_is_nan x"
  shows "\<exists>vm' v r. num_abs vm [a] = Inr (vm', v) \<and> AS_NUM vm' v = Inr r \<and>
           d_ge r d_zero \<and>
           (d_ge x d_zero \<longrightarrow> d_eq r x) \<and>
           (d_lt x d_zero \<longrightarrow> d_eq r (d_neg x))"
proof -
  let ?r = "if d_lt x d_zero then d_neg x else x"
  have run: "num_abs vm [a] = Inr (fst (makeNum vm ?r), snd (makeNum vm ?r))"
    using assms(1) by (simp add: num_abs_value)
  have "d_ge ?r d_zero"
    using assms(2)
    by (auto simp: d_ge_def d_lt_def d_key_zero d_zero_not_nan d_is_nan_neg d_key_neg)
  moreover have "d_ge x d_zero \<longrightarrow> d_eq ?r x"
    using assms(2)
    by (auto simp: d_ge_def d_lt_def d_eq_def d_key_zero)
  moreover have "d_lt x d_zero \<longrightarrow> d_eq ?r (d_neg x)"
    using assms(2)
    by (auto simp: d_lt_def d_eq_def d_is_nan_neg)
  ultimately show ?thesis
    using run AS_NUM_makeNum [of vm ?r] by blast
qed

text \<open>
  The amended C5 at the Number -1.
\<close>

theorem num_abs_correct_witness:
  "AS_NUM ex_vm 5 = Inr (d_neg d_one) \<and> \<not> d_is_nan (d_neg d_one) \<and>
   d_lt (d_neg d_one) d_zero \<and>
   (\<exists>vm' v r. num_abs ex_vm [5] = Inr (vm', v) \<and> AS_NUM vm' v = Inr r \<and>
      d_ge r d_zero \<and> d_eq r (d_neg (d_neg d_one)))"
proof -
  have h1: "AS_NUM ex_vm 5 = Inr (d_neg d_one)" by (rule ex_vm_num(2))
  have h2: "\<not> d_is_nan (d_neg d_one)" by (simp add: d_is_nan_neg d_one_facts)
  have h3: "d_lt (d_neg d_one) d_zero"
    by (simp add: d_lt_def d_is_nan_neg d_key_neg d_one_facts d_key_zero d_zero_not_nan)
  from num_abs_correct [OF h1 h2] h3 have
    "\<exists>vm' v r. num_abs ex_vm [5] = Inr (vm', v) \<and> AS_NUM vm' v = Inr r \<and>
      d_ge r d_zero \<and> d_eq r (d_neg (d_neg d_one))"
    by blast
  with h1 h2 h3 show ?thesis by blast
qed


section \<open>Arithmetic\<close>

lemma AS_NUM_type: "AS_NUM vm v = Inr d \<Longrightarrow> type_of vm v = Inr OBJ_NUM"
  by (auto simp: AS_NUM_def type_of_def deref_def split: if_splits Obj.splits)

lemma zero_vm_num: "AS_NUM zero_vm 4 = Inr d_one" "AS_NUM zero_vm 13 = Inr d_zero"
  by (simp_all add: zero_vm_def makeNum_def alloc_def AS_NUM_def deref_def ex_vm_def)

text \<open>
  C2. For all Numbers \<open>a\<close> and \<open>b\<close>, holding the doubles \<open>x\<close> and \<open>y\<close>, the four primitives
  return a new Number that holds \<open>x + y\<close>, \<open>x - y\<close>, \<open>x * y\<close> and \<open>x / y\<close>, where the four
  operators are the platform's operators on doubles (the record \<open>fp\<close>). No value of \<open>y\<close> is
  treated apart: for a zero divisor too the result is the Number that holds what the
  division of doubles gives, and never a fault.
\<close>

theorem arithmetic_on_numbers:
  assumes "AS_NUM vm a = Inr x" and "AS_NUM vm b = Inr y"
  shows "num_plus fp vm [a, b] = Inr (makeNum vm (fadd fp x y)) \<and>
         num_minus fp vm [a, b] = Inr (makeNum vm (fsub fp x y)) \<and>
         num_multiply fp vm [a, b] = Inr (makeNum vm (fmul fp x y)) \<and>
         num_divide fp vm [a, b] = Inr (makeNum vm (fdiv fp x y)) \<and>
         (\<forall>d. AS_NUM (fst (makeNum vm d)) (snd (makeNum vm d)) = Inr d)"
proof -
  have t: "type_of vm b = Inr OBJ_NUM" using assms(2) by (rule AS_NUM_type)
  show ?thesis
    using assms t
    by (simp add: num_plus_def num_minus_def num_multiply_def num_divide_def AS_NUM_makeNum)
qed

text \<open>
  C2 for the Numbers 1 and 0, the division by zero among the four.
\<close>

theorem arithmetic_on_numbers_witness:
  "\<forall>fp. AS_NUM zero_vm 4 = Inr d_one \<and> AS_NUM zero_vm 13 = Inr d_zero \<and>
      num_plus fp zero_vm [4, 13] = Inr (makeNum zero_vm (fadd fp d_one d_zero)) \<and>
      num_minus fp zero_vm [4, 13] = Inr (makeNum zero_vm (fsub fp d_one d_zero)) \<and>
      num_multiply fp zero_vm [4, 13] = Inr (makeNum zero_vm (fmul fp d_one d_zero)) \<and>
      num_divide fp zero_vm [4, 13] = Inr (makeNum zero_vm (fdiv fp d_one d_zero)) \<and>
      AS_NUM (fst (makeNum zero_vm (fdiv fp d_one d_zero)))
        (snd (makeNum zero_vm (fdiv fp d_one d_zero))) = Inr (fdiv fp d_one d_zero)"
proof
  fix fp
  show "AS_NUM zero_vm 4 = Inr d_one \<and> AS_NUM zero_vm 13 = Inr d_zero \<and>
      num_plus fp zero_vm [4, 13] = Inr (makeNum zero_vm (fadd fp d_one d_zero)) \<and>
      num_minus fp zero_vm [4, 13] = Inr (makeNum zero_vm (fsub fp d_one d_zero)) \<and>
      num_multiply fp zero_vm [4, 13] = Inr (makeNum zero_vm (fmul fp d_one d_zero)) \<and>
      num_divide fp zero_vm [4, 13] = Inr (makeNum zero_vm (fdiv fp d_one d_zero)) \<and>
      AS_NUM (fst (makeNum zero_vm (fdiv fp d_one d_zero)))
        (snd (makeNum zero_vm (fdiv fp d_one d_zero))) = Inr (fdiv fp d_one d_zero)"
    using arithmetic_on_numbers [OF zero_vm_num, of fp] zero_vm_num by simp
qed

section \<open>String search\<close>

lemma string_valueD:
  assumes "string_value vm v s"
  obtains p where "AS_STRING vm v = Inr p" "read_string vm p = Inr s"
  using assms by (auto simp: string_value_def split: sum.splits)

lemma AS_STRING_type: "AS_STRING vm v = Inr p \<Longrightarrow> type_of vm v = Inr OBJ_STRING"
  by (auto simp: AS_STRING_def type_of_def deref_def split: if_splits Obj.splits)

lemma starts_with_iff: "starts_with hs nd \<longleftrightarrow> (\<exists>zs. hs = nd @ zs)"
  by (induction hs nd rule: starts_with.induct) auto

lemma find_sub_iff: "find_sub hs nd \<noteq> None \<longleftrightarrow> (\<exists>ys zs. hs = ys @ nd @ zs)"
proof (induction hs)
  case Nil
  then show ?case by simp
next
  case (Cons h hs)
  show ?case
  proof (cases "starts_with (h # hs) nd")
    case True
    then obtain zs where "h # hs = nd @ zs" by (auto simp: starts_with_iff)
    then have "h # hs = [] @ nd @ zs" by simp
    with True show ?thesis by (metis find_sub.simps(2) option.distinct(1))
  next
    case False
    have "(\<exists>ys zs. h # hs = ys @ nd @ zs) \<longleftrightarrow> (\<exists>ys zs. hs = ys @ nd @ zs)"
    proof
      assume "\<exists>ys zs. h # hs = ys @ nd @ zs"
      then obtain ys zs where e: "h # hs = ys @ nd @ zs" by blast
      show "\<exists>ys zs. hs = ys @ nd @ zs"
      proof (cases ys)
        case Nil
        with e False show ?thesis by (auto simp: starts_with_iff)
      next
        case (Cons y ys')
        with e show ?thesis by auto
      qed
    next
      assume "\<exists>ys zs. hs = ys @ nd @ zs"
      then obtain ys zs where "hs = ys @ nd @ zs" by blast
      then have "h # hs = (h # ys) @ nd @ zs" by simp
      then show "\<exists>ys zs. h # hs = ys @ nd @ zs" by blast
    qed
    with False Cons.IH show ?thesis by simp
  qed
qed

lemma find_sub_empty: "find_sub hs [] = Some 0"
  by (cases hs) simp_all

lemma string_contains_value:
  assumes "string_value vm a s" "string_value vm b t"
  shows "string_contains vm [a, b] =
           Inr (makeNum vm (if find_sub s t \<noteq> None then d_one else d_zero))"
proof -
  from assms(1) obtain p where p: "AS_STRING vm a = Inr p" "read_string vm p = Inr s"
    by (rule string_valueD)
  from assms(2) obtain q where q: "AS_STRING vm b = Inr q" "read_string vm q = Inr t"
    by (rule string_valueD)
  show ?thesis
    using p q
    by (cases s; cases t) (simp_all add: string_contains_def strlen_def strstr_def)
qed

text \<open>
  C6. On Strings, \<open>contains\<close> of the empty string in the empty string and of \<open>ell\<close> in
  \<open>hello\<close> returns the Number 1 (true), and of \<open>xyz\<close> in \<open>hello\<close> the Number 0 (false).
\<close>

theorem string_contains_examples:
  "(string_value vm e [] \<and> string_value vm e' [] \<longrightarrow>
      string_contains vm [e, e'] = Inr (makeNum vm d_one)) \<and>
   (string_value vm a ''hello'' \<and> string_value vm b ''ell'' \<longrightarrow>
      string_contains vm [a, b] = Inr (makeNum vm d_one)) \<and>
   (string_value vm a ''hello'' \<and> string_value vm c ''xyz'' \<longrightarrow>
      string_contains vm [a, c] = Inr (makeNum vm d_zero))"
proof (intro conjI impI)
  assume "string_value vm e [] \<and> string_value vm e' []"
  then show "string_contains vm [e, e'] = Inr (makeNum vm d_one)"
    using string_contains_value [of vm e "[]" e' "[]"] by simp
next
  assume "string_value vm a ''hello'' \<and> string_value vm b ''ell''"
  then show "string_contains vm [a, b] = Inr (makeNum vm d_one)"
    using string_contains_value [of vm a "''hello''" b "''ell''"] by simp
next
  assume "string_value vm a ''hello'' \<and> string_value vm c ''xyz''"
  then show "string_contains vm [a, c] = Inr (makeNum vm d_zero)"
    using string_contains_value [of vm a "''hello''" c "''xyz''"] by simp
qed

text \<open>
  C6 in the example state.
\<close>

theorem string_contains_examples_witness:
  "string_value ex_vm 10 [] \<and> string_value ex_vm 7 ''hello'' \<and>
   string_value ex_vm 8 ''ell'' \<and> string_value ex_vm 9 ''xyz'' \<and>
   string_contains ex_vm [10, 10] = Inr (makeNum ex_vm d_one) \<and>
   string_contains ex_vm [7, 8] = Inr (makeNum ex_vm d_one) \<and>
   string_contains ex_vm [7, 9] = Inr (makeNum ex_vm d_zero)"
  using string_contains_examples [of ex_vm 10 10 7 8 9]
  by (simp add: ex_vm_strings)

text \<open>
  C8. For every String \<open>s\<close>, \<open>contains\<close> with an empty second String returns the
  Number 1: \<open>strstr\<close> finds the empty string at the start of every string.
\<close>

theorem contains_empty_search:
  assumes "string_value vm a s" and "string_value vm b []"
  shows "string_contains vm [a, b] = Inr (makeNum vm d_one)"
  using string_contains_value [OF assms] by (simp add: find_sub_empty)

text \<open>
  C8 for \<open>hello\<close> and the empty string.
\<close>

theorem contains_empty_search_witness:
  "string_value ex_vm 7 ''hello'' \<and> string_value ex_vm 10 [] \<and>
   string_contains ex_vm [7, 10] = Inr (makeNum ex_vm d_one)"
  using contains_empty_search [of ex_vm 7 "''hello''" 10]
  by (simp add: ex_vm_strings)

lemma string_contains_not_value:
  "string_contains vm args = Inr (vm', v) \<Longrightarrow> v = length (heap vm)"
  by (auto simp: string_contains_def bindE_def makeNum_def alloc_def
      split: sum.splits if_splits)

text \<open>
  C9. On String operands \<open>string_contains\<close> returns a Number that is exactly 1 when the
  second string occurs in the first and exactly 0 when it does not. It has no branch
  that returns \<open>vm->unsupported\<close>: whatever the arguments, its result is never the
  sentinel (an object allocated before the call).
\<close>

theorem string_contains_zero_or_one:
  "(string_value vm a s \<and> string_value vm b t \<longrightarrow>
      (\<exists>vm' v. string_contains vm [a, b] = Inr (vm', v) \<and>
         AS_NUM vm' v = Inr (if \<exists>ys zs. s = ys @ t @ zs then d_one else d_zero))) \<and>
   (unsupported vm < length (heap vm) \<longrightarrow>
      (\<forall>args vm'. string_contains vm args \<noteq> Inr (vm', unsupported vm)))"
proof (intro conjI impI allI)
  let ?d = "if \<exists>ys zs. s = ys @ t @ zs then d_one else d_zero"
  assume "string_value vm a s \<and> string_value vm b t"
  then have "string_contains vm [a, b] = Inr (fst (makeNum vm ?d), snd (makeNum vm ?d))"
    using string_contains_value [of vm a s b t] by (simp only: find_sub_iff prod.collapse)
  then show "\<exists>vm' v. string_contains vm [a, b] = Inr (vm', v) \<and> AS_NUM vm' v = Inr ?d"
    using AS_NUM_makeNum [of vm ?d] by blast
next
  fix args vm'
  assume "unsupported vm < length (heap vm)"
  then show "string_contains vm args \<noteq> Inr (vm', unsupported vm)"
    using string_contains_not_value [of vm args vm' "unsupported vm"] by auto
qed

text \<open>
  C9 for \<open>hello\<close> and \<open>ell\<close>, and for a second operand that is not a String.
\<close>

theorem string_contains_zero_or_one_witness:
  "string_value ex_vm 7 ''hello'' \<and> string_value ex_vm 8 ''ell'' \<and>
   unsupported ex_vm < length (heap ex_vm) \<and>
   (\<exists>vm' v. string_contains ex_vm [7, 8] = Inr (vm', v) \<and> AS_NUM vm' v = Inr d_one) \<and>
   string_contains ex_vm [7, 3] \<noteq> Inr (ex_vm, unsupported ex_vm)"
proof -
  have u: "unsupported ex_vm < length (heap ex_vm)" by (simp add: ex_vm_def)
  have "''hello'' = ''h'' @ ''ell'' @ ''o''" by simp
  then have sub: "\<exists>ys zs. ''hello'' = ys @ ''ell'' @ zs" by blast
  show ?thesis
    using string_contains_zero_or_one [of ex_vm 7 "''hello''" 8 "''ell''"] sub u
    by (simp add: ex_vm_strings)
qed

text \<open>
  C7. For every value \<open>v\<close>, \<open>io_write\<close> prints \<open>v\<close> and then one newline, and returns \<open>v\<close>
  itself.
\<close>

theorem io_write_returns_argument:
  "io_write vm [receiver, v] =
     Inr (vm\<lparr>stdout := stdout vm @ [Printed v, Text [CHR 0x0A]]\<rparr>, v)"
  by (simp add: io_write_def printValue_def printf_def)

section \<open>String concatenation\<close>

lemma strcpy_new_block:
  assumes "read_string vm q = Inr t"
  shows "strcpy (vm\<lparr>mem := mem vm @ [b]\<rparr>) \<lparr>block = length (mem vm), offset = k\<rparr> q =
           (if k + (length t + 1) \<le> length b
            then Inr (vm\<lparr>mem := mem vm @
                   [take k b @ map Some (t @ [CHR 0x00]) @ drop (k + (length t + 1)) b]\<rparr>)
            else Inl OutOfBounds)"
proof -
  have "read_string (vm\<lparr>mem := mem vm @ [b]\<rparr>) q = Inr t"
    using assms by (simp add: read_string_def nth_append split: if_splits)
  then show ?thesis
    by (simp add: strcpy_def)
qed

text \<open>
  With two String operands, \<open>string_plus\<close> allocates \<open>leftLength + rightLength\<close> bytes and
  copies both strings with \<open>strcpy\<close>, which also writes the terminating NUL: the last
  write is always one byte past the end of the block.
\<close>

lemma string_plus_overflow:
  assumes "string_value vm a s" "string_value vm b t"
  shows "string_plus vm [a, b] = Inl OutOfBounds"
proof -
  from assms(1) obtain p where p: "AS_STRING vm a = Inr p" "read_string vm p = Inr s"
    by (rule string_valueD)
  from assms(2) obtain q where q: "AS_STRING vm b = Inr q" "read_string vm q = Inr t"
    by (rule string_valueD)
  have t: "type_of vm b = Inr OBJ_STRING" using q(1) by (rule AS_STRING_type)
  show ?thesis
    using p q t
    by (auto simp add: string_plus_def strlen_def malloc_def
        strcpy_new_block [OF p(2)] strcpy_new_block [OF q(2)])
qed

text \<open>
  C3 does not hold of the code. For the Strings \<open>a\<close> and \<open>b\<close>, \<open>string_plus\<close> allocates
  2 bytes and the second \<open>strcpy\<close> writes \<open>b\<close> and the NUL at offsets 1 and 2: no String
  is returned.
\<close>

theorem string_plus_writes_past_buffer:
  "string_value ex_vm 11 ''a'' \<and> string_value ex_vm 12 ''b'' \<and>
   string_plus ex_vm [11, 12] = Inl OutOfBounds"
  by (simp add: ex_vm_strings string_plus_overflow [OF ex_vm_strings(5) ex_vm_strings(6)])

section \<open>Binding\<close>

lemma find_symbol_append:
  "find_symbol (syms @ [name]) name =
     (case find_symbol syms name of Some i \<Rightarrow> Some i | None \<Rightarrow> Some (length syms))"
  by (induction syms) (auto split: option.splits)

lemma find_symbol_ensure:
  "find_symbol (fst (ensureSymbol syms name)) name = Some (snd (ensureSymbol syms name))"
  by (simp add: ensureSymbol_def find_symbol_append split: option.splits)

lemma ensureSymbol_known:
  "find_symbol syms name = Some i \<Longrightarrow> ensureSymbol syms name = (syms, i)"
  by (simp add: ensureSymbol_def)

lemma find_symbol_nth:
  "find_symbol syms name = Some i \<Longrightarrow> i < length syms \<and> syms ! i = name"
  by (induction syms arbitrary: i) (auto split: if_splits)

lemma is_classD:
  assumes "is_class vm c"
  obtains ms where "c < length (heap vm)" "heap vm ! c = ObjClass ms"
  using assms
  by (auto simp: is_class_def deref_def split: if_splits sum.splits Obj.splits)

lemma PRIMITIVE_class:
  assumes "c < length (heap vm)" "heap vm ! c = ObjClass ms"
  shows "PRIMITIVE c name prim vm =
           Inr (vm\<lparr>symbols := fst (ensureSymbol (symbols vm) name),
                  heap := (heap vm)[c := ObjClass (ms(snd (ensureSymbol (symbols vm) name) :=
                    \<lparr>mtype = METHOD_PRIMITIVE, primitive = Some prim\<rparr>))]\<rparr>)"
  using assms by (simp add: PRIMITIVE_def split_def deref_def Let_def)

lemma lookup_bound_class:
  assumes "mtype (lookup vm c i) = METHOD_PRIMITIVE"
  shows "is_class vm c"
  using assms
  by (auto simp: lookup_def is_class_def deref_def no_method_def split: if_splits Obj.splits)

text \<open>
  C4. When \<open>name\<close> has the symbol id \<open>i\<close> and a primitive is bound at slot \<open>i\<close> of the
  class, \<open>PRIMITIVE(cls, name, prim)\<close> registers no new symbol, stores \<open>prim\<close> at the same
  slot \<open>i\<close> in place of the earlier binding and leaves every other slot alone, so that
  looking the name up then finds \<open>prim\<close>.
\<close>

theorem rebinding_overwrites_slot:
  assumes "find_symbol (symbols vm) name = Some i"
    and "mtype (lookup vm cls i) = METHOD_PRIMITIVE"
  shows "\<exists>vm'. PRIMITIVE cls name prim vm = Inr vm' \<and>
           symbols vm' = symbols vm \<and>
           find_symbol (symbols vm') name = Some i \<and>
           lookup vm' cls i = \<lparr>mtype = METHOD_PRIMITIVE, primitive = Some prim\<rparr> \<and>
           (\<forall>j. j \<noteq> i \<longrightarrow> lookup vm' cls j = lookup vm cls j)"
proof -
  from assms(2) have "is_class vm cls" by (rule lookup_bound_class)
  then obtain ms where c: "cls < length (heap vm)" "heap vm ! cls = ObjClass ms"
    by (rule is_classD)
  have e: "ensureSymbol (symbols vm) name = (symbols vm, i)"
    using assms(1) by (rule ensureSymbol_known)
  show ?thesis
    using c assms(1) by (simp add: PRIMITIVE_class [OF c] e lookup_def)
qed

text \<open>
  A first \<open>PRIMITIVE(cls, name, prim)\<close> on a class leaves the name bound in this sense.
\<close>

lemma PRIMITIVE_binds:
  assumes "is_class vm cls"
  shows "\<exists>vm' i. PRIMITIVE cls name prim vm = Inr vm' \<and>
           find_symbol (symbols vm') name = Some i \<and>
           lookup vm' cls i = \<lparr>mtype = METHOD_PRIMITIVE, primitive = Some prim\<rparr>"
proof -
  from assms obtain ms where c: "cls < length (heap vm)" "heap vm ! cls = ObjClass ms"
    by (rule is_classD)
  show ?thesis
    using c by (simp add: PRIMITIVE_class [OF c] find_symbol_ensure lookup_def)
qed

text \<open>
  C4 in the example state, where \<open>abs\<close> is bound on the Number class: binding
  \<open>primitive_num_minus\<close> under \<open>abs\<close> replaces it.
\<close>

theorem rebinding_overwrites_slot_witness:
  "find_symbol (symbols ex_vm) ''abs'' = Some 0 \<and>
   lookup ex_vm 0 0 = \<lparr>mtype = METHOD_PRIMITIVE, primitive = Some primitive_num_abs\<rparr> \<and>
   mtype (lookup ex_vm 0 0) = METHOD_PRIMITIVE \<and>
   (\<exists>vm'. PRIMITIVE 0 ''abs'' primitive_num_minus ex_vm = Inr vm' \<and>
      symbols vm' = [''abs''] \<and>
      lookup vm' 0 0 = \<lparr>mtype = METHOD_PRIMITIVE, primitive = Some primitive_num_minus\<rparr>)"
proof -
  have h1: "find_symbol (symbols ex_vm) ''abs'' = Some 0" by (simp add: ex_vm_def)
  have l: "lookup ex_vm 0 0 = \<lparr>mtype = METHOD_PRIMITIVE, primitive = Some primitive_num_abs\<rparr>"
    by (simp add: ex_vm_def lookup_def)
  then have h2: "mtype (lookup ex_vm 0 0) = METHOD_PRIMITIVE" by simp
  have s: "symbols ex_vm = [''abs'']" by (simp add: ex_vm_def)
  from rebinding_overwrites_slot [OF h1 h2, of primitive_num_minus] s
  have "\<exists>vm'. PRIMITIVE 0 ''abs'' primitive_num_minus ex_vm = Inr vm' \<and>
      symbols vm' = [''abs''] \<and>
      lookup vm' 0 0 = \<lparr>mtype = METHOD_PRIMITIVE, primitive = Some primitive_num_minus\<rparr>"
    by auto
  with h1 l h2 show ?thesis by blast
qed


section \<open>The sentinel after registration\<close>

lemma PRIMITIVE_kept:
  assumes "is_class vm c"
  shows "\<exists>vm'. PRIMITIVE c name prim vm = Inr vm' \<and> kept vm vm'"
proof -
  from assms obtain ms where c: "c < length (heap vm)" "heap vm ! c = ObjClass ms"
    by (rule is_classD)
  show ?thesis
    using c
    by (auto simp: PRIMITIVE_class [OF c] is_class_def deref_def nth_list_update
        split: if_splits sum.splits Obj.splits)
qed

lemma PRIMITIVE_step:
  assumes "kept vm v" "is_class vm c"
  obtains v' where "PRIMITIVE c name prim v = Inr v'" "kept vm v'"
proof -
  from assms have "is_class v c" by simp
  from PRIMITIVE_kept [OF this, of name prim]
  obtain v' where "PRIMITIVE c name prim v = Inr v'" "kept v v'" by blast
  with assms(1) have "kept vm v'" by simp
  with \<open>PRIMITIVE c name prim v = Inr v'\<close> show ?thesis by (rule that)
qed


lemma num_step:
  assumes "kept vm v" "is_class vm (numClass vm)"
  obtains v' where "PRIMITIVE (numClass v) name prim v = Inr v'" "kept vm v'"
  using PRIMITIVE_step [OF assms, of name prim] assms(1) by metis

lemma string_step:
  assumes "kept vm v" "is_class vm (stringClass vm)"
  obtains v' where "PRIMITIVE (stringClass v) name prim v = Inr v'" "kept vm v'"
  using PRIMITIVE_step [OF assms, of name prim] assms(1) by metis

lemma register_tail:
  "(let (vm, ioClass) = makeClass v
     in bindE (PRIMITIVE ioClass ''write '' primitive_io_write vm) (\<lambda>vm.
          let vm = GLOBAL ioClass ''io'' vm;
              (vm, unsupportedClass) = makeClass vm;
              (vm, obj) = makeInstance vm unsupportedClass
          in Inr (vm\<lparr>unsupported := obj\<rparr>))) =
    Inr (v\<lparr>symbols := fst (ensureSymbol (symbols v) ''write ''),
           globalSymbols := fst (addSymbol (globalSymbols v) ''io''),
           globals := (globals v)(snd (addSymbol (globalSymbols v) ''io'') \<mapsto>
             length (heap v) + 1),
           unsupported := length (heap v) + 3,
           heap := heap v @
             [ObjClass ((\<lambda>symbol. no_method)(snd (ensureSymbol (symbols v) ''write '') :=
                \<lparr>mtype = METHOD_PRIMITIVE, primitive = Some primitive_io_write\<rparr>)),
              ObjInstance (length (heap v)),
              ObjClass (\<lambda>symbol. no_method),
              ObjInstance (length (heap v) + 2)]\<rparr>)"
  by (simp add: makeClass_def alloc_def PRIMITIVE_def split_def deref_def Let_def
      GLOBAL_def makeInstance_def eval_nat_numeral)

text \<open>
  When the Number class and the String class are classes, \<open>registerPrimitives\<close> returns:
  the ten bindings on them keep the objects in place, and then four objects are
  allocated, the io class, its instance, the class of the sentinel and the sentinel.
\<close>

lemma registerPrimitives_result:
  assumes nc: "is_class vm (numClass vm)" and sc: "is_class vm (stringClass vm)"
  obtains v where "kept vm v"
    and "registerPrimitives vm =
      Inr (v\<lparr>symbols := fst (ensureSymbol (symbols v) ''write ''),
           globalSymbols := fst (addSymbol (globalSymbols v) ''io''),
           globals := (globals v)(snd (addSymbol (globalSymbols v) ''io'') \<mapsto>
             length (heap v) + 1),
           unsupported := length (heap v) + 3,
           heap := heap v @
             [ObjClass ((\<lambda>symbol. no_method)(snd (ensureSymbol (symbols v) ''write '') :=
                \<lparr>mtype = METHOD_PRIMITIVE, primitive = Some primitive_io_write\<rparr>)),
              ObjInstance (length (heap v)),
              ObjClass (\<lambda>symbol. no_method),
              ObjInstance (length (heap v) + 2)]\<rparr>)"
proof -
  have k0: "kept vm vm" by simp
  from num_step [OF k0 nc] obtain v1
    where e1: "PRIMITIVE (numClass vm) ''abs'' primitive_num_abs vm = Inr v1"
      and k1: "kept vm v1" by blast
  from num_step [OF k1 nc] obtain v2
    where e2: "PRIMITIVE (numClass v1) ''toString'' primitive_num_toString v1 = Inr v2"
      and k2: "kept vm v2" by blast
  from num_step [OF k2 nc] obtain v3
    where e3: "PRIMITIVE (numClass v2) ''- '' primitive_num_minus v2 = Inr v3"
      and k3: "kept vm v3" by blast
  from num_step [OF k3 nc] obtain v4
    where e4: "PRIMITIVE (numClass v3) ''+ '' primitive_num_plus v3 = Inr v4"
      and k4: "kept vm v4" by blast
  from num_step [OF k4 nc] obtain v5
    where e5: "PRIMITIVE (numClass v4) ''* '' primitive_num_multiply v4 = Inr v5"
      and k5: "kept vm v5" by blast
  from num_step [OF k5 nc] obtain v6
    where e6: "PRIMITIVE (numClass v5) ''/ '' primitive_num_divide v5 = Inr v6"
      and k6: "kept vm v6" by blast
  from string_step [OF k6 sc] obtain v7
    where e7: "PRIMITIVE (stringClass v6) ''contains '' primitive_string_contains v6 = Inr v7"
      and k7: "kept vm v7" by blast
  from string_step [OF k7 sc] obtain v8
    where e8: "PRIMITIVE (stringClass v7) ''count'' primitive_string_count v7 = Inr v8"
      and k8: "kept vm v8" by blast
  from string_step [OF k8 sc] obtain v9
    where e9: "PRIMITIVE (stringClass v8) ''toString'' primitive_string_toString v8 = Inr v9"
      and k9: "kept vm v9" by blast
  from string_step [OF k9 sc] obtain v10
    where e10: "PRIMITIVE (stringClass v9) ''+ '' primitive_string_plus v9 = Inr v10"
      and k10: "kept vm v10" by blast
  have "registerPrimitives vm =
      (let (vm, ioClass) = makeClass v10
       in bindE (PRIMITIVE ioClass ''write '' primitive_io_write vm) (\<lambda>vm.
            let vm = GLOBAL ioClass ''io'' vm;
                (vm, unsupportedClass) = makeClass vm;
                (vm, obj) = makeInstance vm unsupportedClass
            in Inr (vm\<lparr>unsupported := obj\<rparr>)))"
    unfolding registerPrimitives_def
    by (simp only: e1 e2 e3 e4 e5 e6 e7 e8 e9 e10 bindE_simps)
  then show ?thesis
    using k10 by (simp only: register_tail that)
qed


lemma boot_vm_classes: "is_class boot_vm (numClass boot_vm)" "is_class boot_vm (stringClass boot_vm)"
  by (simp_all add: is_class_def deref_def boot_vm_def)

lemma fresh_not_allocated:
  "u < length (heap w) \<Longrightarrow> snd (makeNum w d) \<noteq> u \<and> snd (makeString w p) \<noteq> u"
  by (simp add: makeNum_def makeString_def alloc_def)


lemma num_abs_fresh: "num_abs w args = Inr (w', v) \<Longrightarrow> v = length (heap w)"
  by (auto simp: num_abs_def bindE_def makeNum_def alloc_def Let_def split: sum.splits)

lemma string_toString_arg: "string_toString w args = Inr (w', v) \<Longrightarrow> v \<in> set args"
  by (auto simp: string_toString_def bindE_def arg_def split: sum.splits if_splits)

lemma io_write_arg: "io_write w args = Inr (w', v) \<Longrightarrow> v \<in> set args"
  by (auto simp: io_write_def bindE_def arg_def Let_def split: sum.splits if_splits)

lemma num_minus_fresh:
  "arg args 1 = Inr b \<Longrightarrow> type_of w b = Inr OBJ_NUM \<Longrightarrow>
   num_minus fp w args = Inr (w', v) \<Longrightarrow> v = length (heap w)"
  by (auto simp: num_minus_def bindE_def makeNum_def alloc_def split: sum.splits)

lemma num_plus_fresh:
  "arg args 1 = Inr b \<Longrightarrow> type_of w b = Inr OBJ_NUM \<Longrightarrow>
   num_plus fp w args = Inr (w', v) \<Longrightarrow> v = length (heap w)"
  by (auto simp: num_plus_def bindE_def makeNum_def alloc_def split: sum.splits)

lemma num_multiply_fresh:
  "arg args 1 = Inr b \<Longrightarrow> type_of w b = Inr OBJ_NUM \<Longrightarrow>
   num_multiply fp w args = Inr (w', v) \<Longrightarrow> v = length (heap w)"
  by (auto simp: num_multiply_def bindE_def makeNum_def alloc_def split: sum.splits)

lemma num_divide_fresh:
  "arg args 1 = Inr b \<Longrightarrow> type_of w b = Inr OBJ_NUM \<Longrightarrow>
   num_divide fp w args = Inr (w', v) \<Longrightarrow> v = length (heap w)"
  by (auto simp: num_divide_def bindE_def makeNum_def alloc_def split: sum.splits)

lemma strcpy_heap: "strcpy vm dst src = Inr vm' \<Longrightarrow> heap vm' = heap vm"
  by (auto simp: strcpy_def bindE_def Let_def split: sum.splits if_splits)

lemma string_plus_fresh:
  assumes "arg args 1 = Inr b" "type_of w b = Inr OBJ_STRING"
    and "string_plus w args = Inr (w', v)"
  shows "v = length (heap w)"
  using assms
  by (auto simp: string_plus_def bindE_def malloc_def makeString_def alloc_def
      split: sum.splits dest!: strcpy_heap)


text \<open>
  A primitive returns a value it has just made, or one of its arguments, or, on a tag
  mismatch, \<open>vm->unsupported\<close>. So an allocated value \<open>u\<close> that is not among the arguments
  is the result of none of them, apart from the mismatch path.
\<close>

lemma results_not_sentinel:
  assumes "u < length (heap w)" and "u \<notin> set args"
  shows "num_abs w args \<noteq> Inr (w', u) \<and>
         string_contains w args \<noteq> Inr (w', u) \<and>
         string_toString w args \<noteq> Inr (w', u) \<and>
         io_write w args \<noteq> Inr (w', u) \<and>
         (arg args 1 = Inr b \<and> type_of w b = Inr OBJ_NUM \<longrightarrow>
            num_minus fp w args \<noteq> Inr (w', u) \<and>
            num_plus fp w args \<noteq> Inr (w', u) \<and>
            num_multiply fp w args \<noteq> Inr (w', u) \<and>
            num_divide fp w args \<noteq> Inr (w', u)) \<and>
         (arg args 1 = Inr b \<and> type_of w b = Inr OBJ_STRING \<longrightarrow>
            string_plus w args \<noteq> Inr (w', u))"
  using assms num_abs_fresh [of w args w' u] string_contains_not_value [of w args w' u]
    string_toString_arg [of w args w' u] io_write_arg [of w args w' u]
    num_minus_fresh [of args b w fp w' u] num_plus_fresh [of args b w fp w' u]
    num_multiply_fresh [of args b w fp w' u] num_divide_fresh [of args b w fp w' u]
    string_plus_fresh [of args b w w' u]
  by auto




end
